theory Spec2Isabelle
  imports Main "HOL-Library.Word"
begin

section \<open>Values exchanged with the server\<close>

text \<open>
  The client is Python and never checks the type of what the server sends: a field of a
  typed result holds whatever the decoded body holds under that key. A decoded JSON body is
  therefore modelled as the Python value \<open>response.json()\<close> returns. A Python \<open>dict\<close>
  keeps its keys in insertion order, so it is an association list (looked up with
  \<open>map_of\<close>). The client only copies a float and tests it for zero, so a float is its
  IEEE-754 double bit pattern. \<open>JNull\<close> is Python's \<open>None\<close>.
\<close>

datatype jval =
    JNull
  | JBool bool
  | JInt int
  | JFloat "64 word"
  | JStr string
  | JList "jval list"
  | JDict "(string \<times> jval) list"

text \<open>Python's truth value of an object, as \<open>x or y\<close> and \<open>if x\<close> test it.\<close>

fun truthy :: "jval \<Rightarrow> bool" where
  "truthy JNull = False"
| "truthy (JBool b) = b"
| "truthy (JInt i) = (i \<noteq> 0)"
| "truthy (JFloat w) = (take_bit 63 w \<noteq> 0)"
| "truthy (JStr s) = (s \<noteq> [])"
| "truthy (JList xs) = (xs \<noteq> [])"
| "truthy (JDict kvs) = (kvs \<noteq> [])"

section \<open>The exception classes of \<open>sens/exceptions.py\<close>\<close>

text \<open>
  The attributes every \<open>SensError\<close> carries. \<open>SensRateLimitError\<close> and
  \<open>SensServiceUnavailableError\<close> add \<open>retry_after\<close>. The other constructors of
  \<open>exn\<close> are the built-in Python exceptions the client's code can raise, the one of
  \<open>open\<close>, the \<open>UnicodeEncodeError\<close> of \<open>str.encode\<close>, and \<open>LibraryError\<close>: an
  exception raised inside the HTTP library (its \<open>InvalidURL\<close>, its transport errors, the
  \<open>ValueError\<close> of its JSON encoder, what it raises on a malformed proxy setting), carried
  by its message. The client catches none of them.
\<close>

record sens_fields =
  message :: jval
  code :: jval
  details :: jval

datatype exn =
    SensError sens_fields
  | SensAuthError sens_fields
  | SensRateLimitError sens_fields "int option"
  | SensNotFoundError sens_fields
  | SensValidationError sens_fields
  | SensConflictError sens_fields
  | SensPayloadTooLargeError sens_fields
  | SensServiceUnavailableError sens_fields "int option"
  | KeyError string
  | TypeError
  | AttributeError
  | ValueError
  | OSError string
  | UnicodeEncodeError
  | LibraryError string

text \<open>\<open>SensError.__init__(message, code=None, details=None)\<close>: \<open>details or {}\<close>.\<close>

definition SensError_init :: "jval \<Rightarrow> jval \<Rightarrow> jval \<Rightarrow> sens_fields" where
  "SensError_init m c d =
     \<lparr>message = m, code = c, details = (if truthy d then d else JDict [])\<rparr>"

text \<open>A raised exception ends the computation: sequencing on \<open>exn + 'a\<close>.\<close>

definition bind_exn :: "exn + 'a \<Rightarrow> ('a \<Rightarrow> exn + 'b) \<Rightarrow> exn + 'b" where
  "bind_exn m f = (case m of Inl e \<Rightarrow> Inl e | Inr v \<Rightarrow> f v)"

section \<open>Python operations the client applies to decoded values\<close>

text \<open>\<open>v[k]\<close> with a string key: only a dict can be subscripted with one.\<close>

fun py_getitem :: "jval \<Rightarrow> string \<Rightarrow> exn + jval" where
  "py_getitem (JDict kvs) k =
     (case map_of kvs k of None \<Rightarrow> Inl (KeyError k) | Some x \<Rightarrow> Inr x)"
| "py_getitem v k = Inl TypeError"

text \<open>\<open>v.get(k, default)\<close>: only a dict has the method.\<close>

fun py_get :: "jval \<Rightarrow> string \<Rightarrow> jval \<Rightarrow> exn + jval" where
  "py_get (JDict kvs) k dflt = Inr (case map_of kvs k of None \<Rightarrow> dflt | Some x \<Rightarrow> x)"
| "py_get v k dflt = Inl AttributeError"

text \<open>\<open>for s in v\<close>: a list gives its items, a dict its keys, a string its characters.\<close>

fun py_iter :: "jval \<Rightarrow> exn + jval list" where
  "py_iter (JList xs) = Inr xs"
| "py_iter (JDict kvs) = Inr (map (\<lambda>kv. JStr (fst kv)) kvs)"
| "py_iter (JStr s) = Inr (map (\<lambda>c. JStr [c]) s)"
| "py_iter v = Inl TypeError"

text \<open>A list comprehension \<open>[f(s) for s in xs]\<close>: the first exception ends it.\<close>

fun comprehension :: "('a \<Rightarrow> exn + 'b) \<Rightarrow> 'a list \<Rightarrow> exn + 'b list" where
  "comprehension f [] = Inr []"
| "comprehension f (x # xs) =
     (case f x of
        Inl e \<Rightarrow> Inl e
      | Inr y \<Rightarrow> (case comprehension f xs of Inl e \<Rightarrow> Inl e | Inr ys \<Rightarrow> Inr (y # ys)))"

text \<open>\<open>str(n)\<close> for an integer, as the f-string \<open>f"HTTP {status}"\<close> renders it.\<close>

fun str_nat :: "nat \<Rightarrow> string" where
  "str_nat n =
     (if n < 10 then [''0123456789'' ! n]
      else str_nat (n div 10) @ [''0123456789'' ! (n mod 10)])"

declare str_nat.simps [simp del]

definition str_int :: "int \<Rightarrow> string" where
  "str_int i = (if i < 0 then CHR ''-'' # str_nat (nat (- i)) else str_nat (nat i))"

text \<open>
  \<open>int(s)\<close> for a string, base 10, as CPython computes it. A string here is a \<open>str\<close>
  whose code points are below 256, one \<open>char\<close> each. In a string that is not ASCII the
  two Unicode spaces of that range, U+0085 and U+00A0, are first turned into a blank; any
  other character above ASCII is no decimal digit and makes the conversion fail. Then the
  whitespace of the C locale (tab, line feed, vertical tab, form feed, carriage return,
  blank) is skipped at both ends, one sign is allowed, and the digits may be grouped by
  single underscores. More digits than the interpreter's default limit of 4300 are
  refused. \<open>None\<close> stands for the \<open>ValueError\<close> Python raises.
\<close>

definition is_ascii :: "string \<Rightarrow> bool" where
  "is_ascii s = list_all (\<lambda>c. of_char c < (128 :: nat)) s"

definition unicode_space_to_blank :: "char \<Rightarrow> char" where
  "unicode_space_to_blank c = (if c = CHR 0x85 \<or> c = CHR 0xA0 then CHR 0x20 else c)"

definition py_isspace :: "char \<Rightarrow> bool" where
  "py_isspace c =
     (c \<in> set [CHR 0x09, CHR 0x0A, CHR 0x0B, CHR 0x0C, CHR 0x0D, CHR 0x20])"

definition int_max_str_digits :: nat where
  "int_max_str_digits = 4300"

definition py_strip :: "string \<Rightarrow> string" where
  "py_strip s = rev (dropWhile py_isspace (rev (dropWhile py_isspace s)))"

definition digit_val :: "char \<Rightarrow> nat option" where
  "digit_val c =
     map_of [(CHR ''0'', 0), (CHR ''1'', 1), (CHR ''2'', 2), (CHR ''3'', 3), (CHR ''4'', 4),
             (CHR ''5'', 5), (CHR ''6'', 6), (CHR ''7'', 7), (CHR ''8'', 8), (CHR ''9'', 9)] c"

fun parse_digits :: "nat \<Rightarrow> string \<Rightarrow> nat option" where
  "parse_digits acc [] = Some acc"
| "parse_digits acc [c] =
     (case digit_val c of None \<Rightarrow> None | Some v \<Rightarrow> Some (acc * 10 + v))"
| "parse_digits acc (c # d # ds) =
     (if c = CHR ''_''
      then (case digit_val d of None \<Rightarrow> None | Some v \<Rightarrow> parse_digits (acc * 10 + v) ds)
      else (case digit_val c of None \<Rightarrow> None | Some v \<Rightarrow> parse_digits (acc * 10 + v) (d # ds)))"

definition py_int :: "string \<Rightarrow> int option" where
  "py_int s =
     (let t = py_strip (map unicode_space_to_blank s);
          neg = (take 1 t = ''-'');
          u = (if take 1 t = ''-'' \<or> take 1 t = ''+'' then drop 1 t else t)
      in case u of
           [] \<Rightarrow> None
         | d # ds \<Rightarrow>
             (case digit_val d of
                None \<Rightarrow> None
              | Some v \<Rightarrow>
                  (case parse_digits v ds of
                     None \<Rightarrow> None
                   | Some n \<Rightarrow>
                       (if int_max_str_digits < length (filter (\<lambda>c. c \<noteq> CHR ''_'') u)
                        then None
                        else Some (if neg then - int n else int n)))))"

section \<open>The response handler\<close>

text \<open>
  What the client reads of an \<open>httpx.Response\<close>: the status code, the outcome of
  \<open>response.json()\<close> (\<open>None\<close> when it raises, a decoded value otherwise) and
  \<open>response.headers.get\<close>.
\<close>

record response =
  status_code :: int
  json_body :: "jval option"
  headers :: "string \<Rightarrow> string option"

text \<open>\<open>int(retry_after) if retry_after else None\<close>\<close>

definition parse_retry_after :: "string option \<Rightarrow> exn + int option" where
  "parse_retry_after h =
     (case h of
        None \<Rightarrow> Inr None
      | Some s \<Rightarrow>
          (if s = [] then Inr None
           else (case py_int s of None \<Rightarrow> Inl ValueError | Some n \<Rightarrow> Inr (Some n))))"

text \<open>\<open>SensClient._handle_response\<close>\<close>

definition handle_response :: "response \<Rightarrow> exn + jval" where
  "handle_response r =
     (let data = (case json_body r of None \<Rightarrow> JDict [] | Some v \<Rightarrow> v) in
      if status_code r \<in> set [200, 201, 202, 204] then Inr data
      else
        bind_exn (py_get data ''message'' (JStr (''HTTP '' @ str_int (status_code r))))
          (\<lambda>error_message.
        bind_exn (py_get data ''code'' JNull)
          (\<lambda>error_code.
        bind_exn (py_get data ''details'' (JDict []))
          (\<lambda>error_details.
             if status_code r = 400 then
               Inl (SensValidationError (SensError_init error_message error_code error_details))
             else if status_code r = 401 then
               Inl (SensAuthError (SensError_init error_message error_code error_details))
             else if status_code r = 403 then
               Inl (SensAuthError (SensError_init error_message error_code error_details))
             else if status_code r = 404 then
               Inl (SensNotFoundError (SensError_init error_message error_code error_details))
             else if status_code r = 409 then
               Inl (SensConflictError (SensError_init error_message error_code error_details))
             else if status_code r = 413 then
               Inl (SensPayloadTooLargeError
                      (SensError_init error_message error_code error_details))
             else if status_code r = 429 then
               bind_exn (parse_retry_after (headers r ''Retry-After''))
                 (\<lambda>retry_after.
                    Inl (SensRateLimitError
                           (SensError_init error_message error_code error_details) retry_after))
             else if status_code r = 503 then
               bind_exn (parse_retry_after (headers r ''Retry-After''))
                 (\<lambda>retry_after.
                    Inl (SensServiceUnavailableError
                           (SensError_init error_message error_code error_details) retry_after))
             else
               Inl (SensError (SensError_init error_message error_code error_details))))))"

section \<open>Typed results\<close>

text \<open>
  The dataclasses of \<open>client.py\<close>. A dataclass does not check its field types, so
  every field holds the decoded value it was given; an optional field left out of the
  constructor call has its declared default \<open>None\<close>.
\<close>

record Document =
  doc_id :: jval
  doc_status :: jval
  doc_title :: jval
  doc_size_bytes :: jval
  doc_tags :: jval
  doc_created_at :: jval
  doc_estimated_ready_at :: jval
  doc_ready_at :: jval
  doc_page_count :: jval
  doc_chunk_count :: jval
  doc_concept_count :: jval

record Source =
  src_document_id :: jval
  src_document_title :: jval
  src_page :: jval
  src_excerpt :: jval
  src_confidence_score :: jval
  src_semantic_layer :: jval
  src_matched_concepts :: jval
  src_pragmatic_insights :: jval

record QueryResult =
  qr_query_id :: jval
  qr_query :: jval
  qr_answer :: jval
  qr_confidence_score :: jval
  qr_processing_time_ms :: jval
  qr_sources :: "Source list"

record ContextRail =
  cr_query_id :: jval
  cr_query :: jval
  cr_retrieved_at :: jval
  cr_sources :: "Source list"
  cr_summary :: jval

section \<open>The client and what surrounds it\<close>

text \<open>
  The process environment the client consults: \<open>os.getenv\<close>, \<open>os.path.exists\<close> and
  \<open>open(path, "rb")\<close> (\<open>None\<close> when it raises, the file's bytes otherwise). The HTTP
  library reads the environment too when a client is built (proxy settings, certificate
  files): \<open>client_setup\<close> is the message of the exception it raises over them, \<open>None\<close>
  when it raises none.
\<close>

record env =
  getenv :: "string \<Rightarrow> string option"
  path_exists :: "string \<Rightarrow> bool"
  open_rb :: "string \<Rightarrow> string option"
  client_setup :: "string option"

record client =
  api_key :: string
  base_url :: string
  timeout :: int
  client_headers :: "(string \<times> string) list"

text \<open>Truth value of an \<open>Optional[str]\<close> and of an \<open>Optional[List[str]]\<close>.\<close>

definition opt_truthy :: "'a list option \<Rightarrow> bool" where
  "opt_truthy x = (case x of None \<Rightarrow> False | Some s \<Rightarrow> s \<noteq> [])"

text \<open>\<open>base_url.rstrip("/")\<close>\<close>

definition rstrip_slash :: "string \<Rightarrow> string" where
  "rstrip_slash s = rev (dropWhile (\<lambda>c. c = CHR ''/'') (rev s))"

text \<open>\<open>SensClient._get_headers\<close>\<close>

definition get_headers :: "string \<Rightarrow> (string \<times> string) list" where
  "get_headers key =
     [(''Authorization'', ''Bearer '' @ key),
      (''Content-Type'', ''application/json''),
      (''User-Agent'', ''sens-prism-sdk/0.4.0'')]"

text \<open>
  \<open>httpx.Client(headers=..., timeout=...)\<close>: the library encodes every header name and
  value with \<open>str.encode("ascii")\<close>, which raises \<open>UnicodeEncodeError\<close> on a character
  outside ASCII, and then sets up its transports from the environment. It opens no
  connection. The result is the header list the client will send.
\<close>

definition httpx_Client_init ::
  "env \<Rightarrow> (string \<times> string) list \<Rightarrow> int \<Rightarrow> exn + (string \<times> string) list" where
  "httpx_Client_init ev hs tmo =
     (if list_all (\<lambda>kv. is_ascii (fst kv) \<and> is_ascii (snd kv)) hs
      then (case client_setup ev of None \<Rightarrow> Inr hs | Some m \<Rightarrow> Inl (LibraryError m))
      else Inl UnicodeEncodeError)"

text \<open>
  \<open>SensClient.__init__(api_key=None, base_url="https://api.sens.ai/v1", timeout=30)\<close>.
  An argument the caller leaves out is \<open>None\<close> here and takes the default of the
  signature. An exception of \<open>httpx.Client\<close> leaves \<open>__init__\<close>, so no client results.
\<close>

definition SensClient_init ::
  "env \<Rightarrow> string option \<Rightarrow> string option \<Rightarrow> int option \<Rightarrow> exn + client" where
  "SensClient_init ev api_key_arg base_url_arg timeout_arg =
     (let url = (case base_url_arg of None \<Rightarrow> ''https://api.sens.ai/v1'' | Some u \<Rightarrow> u);
          tmo = (case timeout_arg of None \<Rightarrow> 30 | Some t \<Rightarrow> t);
          key = (if opt_truthy api_key_arg then api_key_arg else getenv ev ''SENS_API_KEY'')
      in case key of
           None \<Rightarrow>
             Inl (SensValidationError
                    (SensError_init
                       (JStr ''API key required. Provide 'api_key' parameter or set SENS_API_KEY environment variable.'')
                       (JStr ''SENS_003'') JNull))
         | Some k \<Rightarrow>
             (if k = [] then
                Inl (SensValidationError
                       (SensError_init
                          (JStr ''API key required. Provide 'api_key' parameter or set SENS_API_KEY environment variable.'')
                          (JStr ''SENS_003'') JNull))
              else
                bind_exn (httpx_Client_init ev (get_headers k) tmo)
                  (\<lambda>hs. Inr \<lparr>api_key = k, base_url = rstrip_slash url, timeout = tmo,
                              client_headers = hs\<rparr>)))"

subsection \<open>Requests and the transport\<close>

datatype http_method = GET | POST | DELETE

text \<open>
  The body of a request: none, \<open>json=payload\<close>, or the multipart upload with the opened
  file and the form fields \<open>data\<close> (\<open>None\<close> when the dict is empty).
\<close>

datatype req_body =
    NoBody
  | JsonBody jval
  | Multipart string "(string \<times> string) list option"

record request =
  verb :: http_method
  url :: string
  content :: req_body

text \<open>
  A \<open>request\<close> holds the arguments of one call of \<open>self._client.get/post/delete\<close>: the
  verb, the URL string as the client built it, and the body arguments. What the HTTP
  library, the network and the server make of a call is the parameter \<open>send\<close>:
  \<^item> \<open>Refused\<close>: the library raises before anything reaches its transport (a URL it
    refuses, a payload it cannot encode, a header it cannot send);
  \<^item> \<open>Failed\<close>: the transport is invoked and raises, no response arrives;
  \<^item> \<open>Answered\<close>: a response arrives.
  The log holds the calls that reached the transport, in order: it is the counter of HTTP
  requests issued, as a mock transport would count them. It records the URL string the
  client passed; the library may normalise the path before sending.
\<close>

datatype call_outcome = Refused string | Failed string | Answered response

definition call_result :: "call_outcome \<Rightarrow> exn + response" where
  "call_result outcome =
     (case outcome of
        Refused m \<Rightarrow> Inl (LibraryError m)
      | Failed m \<Rightarrow> Inl (LibraryError m)
      | Answered r \<Rightarrow> Inr r)"

definition reached_transport :: "call_outcome \<Rightarrow> bool" where
  "reached_transport outcome =
     (case outcome of Refused m \<Rightarrow> False | Failed m \<Rightarrow> True | Answered r \<Rightarrow> True)"

definition client_send ::
  "(request \<Rightarrow> call_outcome) \<Rightarrow> request \<Rightarrow> request list
     \<Rightarrow> (exn + response) \<times> request list" where
  "client_send send req log =
     (call_result (send req), if reached_transport (send req) then log @ [req] else log)"

subsection \<open>Decoding the typed results\<close>

text \<open>The \<open>Document(...)\<close> call of \<open>upload_document\<close>.\<close>

definition document_of_upload :: "jval \<Rightarrow> exn + Document" where
  "document_of_upload result =
     bind_exn (py_getitem result ''id'') (\<lambda>v_id.
     bind_exn (py_getitem result ''status'') (\<lambda>v_status.
     bind_exn (py_get result ''title'' JNull) (\<lambda>v_title.
     bind_exn (py_get result ''size_bytes'' JNull) (\<lambda>v_size.
     bind_exn (py_get result ''tags'' JNull) (\<lambda>v_tags.
     bind_exn (py_get result ''created_at'' JNull) (\<lambda>v_created.
     bind_exn (py_get result ''estimated_ready_at'' JNull) (\<lambda>v_est.
       Inr \<lparr>doc_id = v_id, doc_status = v_status, doc_title = v_title,
            doc_size_bytes = v_size, doc_tags = v_tags, doc_created_at = v_created,
            doc_estimated_ready_at = v_est, doc_ready_at = JNull, doc_page_count = JNull,
            doc_chunk_count = JNull, doc_concept_count = JNull\<rparr>)))))))"

text \<open>The \<open>Document(...)\<close> call of \<open>get_document\<close>.\<close>

definition document_of_get :: "jval \<Rightarrow> exn + Document" where
  "document_of_get result =
     bind_exn (py_getitem result ''id'') (\<lambda>v_id.
     bind_exn (py_getitem result ''status'') (\<lambda>v_status.
     bind_exn (py_get result ''title'' JNull) (\<lambda>v_title.
     bind_exn (py_get result ''size_bytes'' JNull) (\<lambda>v_size.
     bind_exn (py_get result ''tags'' JNull) (\<lambda>v_tags.
     bind_exn (py_get result ''created_at'' JNull) (\<lambda>v_created.
     bind_exn (py_get result ''ready_at'' JNull) (\<lambda>v_ready.
     bind_exn (py_get result ''page_count'' JNull) (\<lambda>v_pages.
     bind_exn (py_get result ''chunk_count'' JNull) (\<lambda>v_chunks.
     bind_exn (py_get result ''concept_count'' JNull) (\<lambda>v_concepts.
       Inr \<lparr>doc_id = v_id, doc_status = v_status, doc_title = v_title,
            doc_size_bytes = v_size, doc_tags = v_tags, doc_created_at = v_created,
            doc_estimated_ready_at = JNull, doc_ready_at = v_ready,
            doc_page_count = v_pages, doc_chunk_count = v_chunks,
            doc_concept_count = v_concepts\<rparr>))))))))))"

text \<open>The \<open>Source(...)\<close> call inside the comprehension of \<open>query\<close>.\<close>

definition source_of_query :: "jval \<Rightarrow> exn + Source" where
  "source_of_query s =
     bind_exn (py_getitem s ''document_id'') (\<lambda>v_doc.
     bind_exn (py_get s ''document_title'' JNull) (\<lambda>v_title.
     bind_exn (py_get s ''page'' JNull) (\<lambda>v_page.
     bind_exn (py_get s ''confidence_score'' JNull) (\<lambda>v_conf.
       Inr \<lparr>src_document_id = v_doc, src_document_title = v_title, src_page = v_page,
            src_excerpt = JNull, src_confidence_score = v_conf, src_semantic_layer = JNull,
            src_matched_concepts = JNull, src_pragmatic_insights = JNull\<rparr>))))"

text \<open>The \<open>Source(...)\<close> call inside the comprehension of \<open>get_context_rail\<close>.\<close>

definition source_of_context :: "jval \<Rightarrow> exn + Source" where
  "source_of_context s =
     bind_exn (py_getitem s ''document_id'') (\<lambda>v_doc.
     bind_exn (py_get s ''document_title'' JNull) (\<lambda>v_title.
     bind_exn (py_get s ''page'' JNull) (\<lambda>v_page.
     bind_exn (py_get s ''excerpt'' JNull) (\<lambda>v_excerpt.
     bind_exn (py_get s ''confidence_score'' JNull) (\<lambda>v_conf.
     bind_exn (py_get s ''semantic_layer'' JNull) (\<lambda>v_layer.
     bind_exn (py_get s ''matched_concepts'' JNull) (\<lambda>v_matched.
     bind_exn (py_get s ''pragmatic_insights'' JNull) (\<lambda>v_insights.
       Inr \<lparr>src_document_id = v_doc, src_document_title = v_title, src_page = v_page,
            src_excerpt = v_excerpt, src_confidence_score = v_conf,
            src_semantic_layer = v_layer, src_matched_concepts = v_matched,
            src_pragmatic_insights = v_insights\<rparr>))))))))"

text \<open>What \<open>query\<close> does with the handler's result: the sources first, then the record.\<close>

definition query_result_of :: "jval \<Rightarrow> exn + QueryResult" where
  "query_result_of result =
     bind_exn (py_get result ''sources'' (JList [])) (\<lambda>v_sources.
     bind_exn (py_iter v_sources) (\<lambda>items.
     bind_exn (comprehension source_of_query items) (\<lambda>sources.
     bind_exn (py_getitem result ''query_id'') (\<lambda>v_id.
     bind_exn (py_getitem result ''query'') (\<lambda>v_query.
     bind_exn (py_getitem result ''answer'') (\<lambda>v_answer.
     bind_exn (py_getitem result ''confidence_score'') (\<lambda>v_conf.
     bind_exn (py_getitem result ''processing_time_ms'') (\<lambda>v_time.
       Inr \<lparr>qr_query_id = v_id, qr_query = v_query, qr_answer = v_answer,
            qr_confidence_score = v_conf, qr_processing_time_ms = v_time,
            qr_sources = sources\<rparr>))))))))"

text \<open>What \<open>get_context_rail\<close> does with the handler's result.\<close>

definition context_rail_of :: "jval \<Rightarrow> exn + ContextRail" where
  "context_rail_of result =
     bind_exn (py_get result ''sources'' (JList [])) (\<lambda>v_sources.
     bind_exn (py_iter v_sources) (\<lambda>items.
     bind_exn (comprehension source_of_context items) (\<lambda>sources.
     bind_exn (py_getitem result ''query_id'') (\<lambda>v_id.
     bind_exn (py_getitem result ''query'') (\<lambda>v_query.
     bind_exn (py_getitem result ''retrieved_at'') (\<lambda>v_at.
     bind_exn (py_get result ''summary'' (JDict [])) (\<lambda>v_summary.
       Inr \<lparr>cr_query_id = v_id, cr_query = v_query, cr_retrieved_at = v_at,
            cr_sources = sources, cr_summary = v_summary\<rparr>)))))))"

section \<open>The operations of \<open>SensClient\<close>\<close>

text \<open>
  Each operation takes the log of requests issued so far and returns it with its own
  requests appended, next to the value it returns or the exception it raises.
\<close>

text \<open>\<open>",".join(tags)\<close>\<close>

fun join_comma :: "string list \<Rightarrow> string" where
  "join_comma [] = []"
| "join_comma [t] = t"
| "join_comma (t # u # us) = t @ '','' @ join_comma (u # us)"

text \<open>The form fields \<open>data\<close> that \<open>upload_document\<close> builds.\<close>

definition upload_data :: "string option \<Rightarrow> string list option \<Rightarrow> (string \<times> string) list" where
  "upload_data title tags =
     (case title of None \<Rightarrow> [] | Some t \<Rightarrow> (if t = [] then [] else [(''title'', t)])) @
     (case tags of None \<Rightarrow> [] | Some g \<Rightarrow> (if g = [] then [] else [(''tags'', join_comma g)]))"

definition upload_request :: "client \<Rightarrow> string \<Rightarrow> string option \<Rightarrow> string list option \<Rightarrow> request" where
  "upload_request c f title tags =
     \<lparr>verb = POST, url = base_url c @ ''/documents'',
      content = Multipart f (if upload_data title tags = [] then None
                             else Some (upload_data title tags))\<rparr>"

definition upload_document ::
  "client \<Rightarrow> env \<Rightarrow> (request \<Rightarrow> call_outcome) \<Rightarrow> string \<Rightarrow> string option
     \<Rightarrow> string list option \<Rightarrow> request list \<Rightarrow> (exn + Document) \<times> request list" where
  "upload_document c ev send file_path title tags log =
     (if \<not> path_exists ev file_path then
        (Inl (SensValidationError
                (SensError_init (JStr (''File not found: '' @ file_path))
                   (JStr ''SENS_003'') JNull)), log)
      else
        (case open_rb ev file_path of
           None \<Rightarrow> (Inl (OSError file_path), log)
         | Some f \<Rightarrow>
             (case client_send send (upload_request c f title tags) log of
                (resp, log') \<Rightarrow>
                  (bind_exn resp (\<lambda>response.
                   bind_exn (handle_response response) document_of_upload), log'))))"

definition document_request :: "client \<Rightarrow> http_method \<Rightarrow> string \<Rightarrow> request" where
  "document_request c m document_id =
     \<lparr>verb = m, url = base_url c @ ''/documents/'' @ document_id, content = NoBody\<rparr>"

definition get_document ::
  "client \<Rightarrow> (request \<Rightarrow> call_outcome) \<Rightarrow> string \<Rightarrow> request list
     \<Rightarrow> (exn + Document) \<times> request list" where
  "get_document c send document_id log =
     (case client_send send (document_request c GET document_id) log of
        (resp, log') \<Rightarrow>
          (bind_exn resp (\<lambda>response.
           bind_exn (handle_response response) document_of_get), log'))"

definition delete_document ::
  "client \<Rightarrow> (request \<Rightarrow> call_outcome) \<Rightarrow> string \<Rightarrow> request list
     \<Rightarrow> (exn + unit) \<times> request list" where
  "delete_document c send document_id log =
     (case client_send send (document_request c DELETE document_id) log of
        (resp, log') \<Rightarrow>
          (bind_exn resp (\<lambda>response.
           bind_exn (handle_response response) (\<lambda>result. Inr ())), log'))"

text \<open>
  The JSON payload of \<open>query\<close>. The defaults of the signature are \<open>limit=3\<close> and
  \<open>confidence_threshold=0.5\<close>, the double \<open>0x3FE0000000000000\<close>; an argument left out
  is \<open>None\<close>.
\<close>

definition query_payload ::
  "string \<Rightarrow> string list option \<Rightarrow> string list option \<Rightarrow> int \<Rightarrow> 64 word \<Rightarrow> jval" where
  "query_payload q document_ids tags limit confidence_threshold =
     JDict ([(''query'', JStr q), (''limit'', JInt limit),
             (''confidence_threshold'', JFloat confidence_threshold)] @
            (case document_ids of
               None \<Rightarrow> []
             | Some ds \<Rightarrow> (if ds = [] then [] else [(''document_ids'', JList (map JStr ds))])) @
            (case tags of
               None \<Rightarrow> []
             | Some g \<Rightarrow> (if g = [] then [] else [(''tags'', JList (map JStr g))])))"

definition query_request ::
  "client \<Rightarrow> string \<Rightarrow> string list option \<Rightarrow> string list option \<Rightarrow> int \<Rightarrow> 64 word
     \<Rightarrow> request" where
  "query_request c q document_ids tags limit confidence_threshold =
     \<lparr>verb = POST, url = base_url c @ ''/query'',
      content = JsonBody (query_payload q document_ids tags limit confidence_threshold)\<rparr>"

definition query ::
  "client \<Rightarrow> (request \<Rightarrow> call_outcome) \<Rightarrow> string \<Rightarrow> string list option
     \<Rightarrow> string list option \<Rightarrow> int option \<Rightarrow> 64 word option \<Rightarrow> request list
     \<Rightarrow> (exn + QueryResult) \<times> request list" where
  "query c send q document_ids tags limit_arg threshold_arg log =
     (let limit = (case limit_arg of None \<Rightarrow> 3 | Some l \<Rightarrow> l);
          confidence_threshold =
            (case threshold_arg of None \<Rightarrow> 0x3FE0000000000000 | Some t \<Rightarrow> t)
      in case client_send send
                (query_request c q document_ids tags limit confidence_threshold) log of
           (resp, log') \<Rightarrow>
             (bind_exn resp (\<lambda>response.
              bind_exn (handle_response response) query_result_of), log'))"

definition context_rail_request :: "client \<Rightarrow> string \<Rightarrow> request" where
  "context_rail_request c query_id =
     \<lparr>verb = GET, url = base_url c @ ''/context-rail/'' @ query_id, content = NoBody\<rparr>"

definition get_context_rail ::
  "client \<Rightarrow> (request \<Rightarrow> call_outcome) \<Rightarrow> string \<Rightarrow> request list
     \<Rightarrow> (exn + ContextRail) \<times> request list" where
  "get_context_rail c send query_id log =
     (case client_send send (context_rail_request c query_id) log of
        (resp, log') \<Rightarrow>
          (bind_exn resp (\<lambda>response.
           bind_exn (handle_response response) context_rail_of), log'))"

subsection \<open>The asynchronous wrappers\<close>

text \<open>
  \<open>loop.run_in_executor(None, f, *args)\<close> runs the call \<open>f(*args)\<close> on a worker and
  gives a future holding its outcome; \<open>await\<close> returns the value of a resolved future
  and raises the exception of a rejected one. Scheduling is not part of the model: the
  call runs once, against the same environment and transport.
\<close>

datatype 'a future = Resolved 'a | Rejected exn

definition run_in_executor ::
  "(request list \<Rightarrow> (exn + 'a) \<times> request list) \<Rightarrow> request list
     \<Rightarrow> 'a future \<times> request list" where
  "run_in_executor call log =
     (case call log of
        (Inl e, log') \<Rightarrow> (Rejected e, log')
      | (Inr v, log') \<Rightarrow> (Resolved v, log'))"

definition await :: "'a future \<Rightarrow> exn + 'a" where
  "await fut = (case fut of Resolved v \<Rightarrow> Inr v | Rejected e \<Rightarrow> Inl e)"

definition upload_document_async ::
  "client \<Rightarrow> env \<Rightarrow> (request \<Rightarrow> call_outcome) \<Rightarrow> string \<Rightarrow> string option
     \<Rightarrow> string list option \<Rightarrow> request list \<Rightarrow> (exn + Document) \<times> request list" where
  "upload_document_async c ev send file_path title tags log =
     (case run_in_executor (upload_document c ev send file_path title tags) log of
        (fut, log') \<Rightarrow> (await fut, log'))"

definition query_async ::
  "client \<Rightarrow> (request \<Rightarrow> call_outcome) \<Rightarrow> string \<Rightarrow> string list option
     \<Rightarrow> string list option \<Rightarrow> int option \<Rightarrow> 64 word option \<Rightarrow> request list
     \<Rightarrow> (exn + QueryResult) \<times> request list" where
  "query_async c send q document_ids tags limit_arg threshold_arg log =
     (let limit = (case limit_arg of None \<Rightarrow> 3 | Some l \<Rightarrow> l);
          confidence_threshold =
            (case threshold_arg of None \<Rightarrow> 0x3FE0000000000000 | Some t \<Rightarrow> t)
      in case run_in_executor
                (query c send q document_ids tags (Some limit) (Some confidence_threshold))
                log of
           (fut, log') \<Rightarrow> (await fut, log'))"

section \<open>Reading a raised exception\<close>

text \<open>
  \<open>isinstance(e, SensError)\<close> together with the attributes \<open>e.message\<close>, \<open>e.code\<close> and
  \<open>e.details\<close>: every class of \<open>exceptions.py\<close> inherits them from \<open>SensError\<close>, and no
  other exception has them.
\<close>

fun sens_fields_of :: "exn \<Rightarrow> sens_fields option" where
  "sens_fields_of (SensError f) = Some f"
| "sens_fields_of (SensAuthError f) = Some f"
| "sens_fields_of (SensRateLimitError f ra) = Some f"
| "sens_fields_of (SensNotFoundError f) = Some f"
| "sens_fields_of (SensValidationError f) = Some f"
| "sens_fields_of (SensConflictError f) = Some f"
| "sens_fields_of (SensPayloadTooLargeError f) = Some f"
| "sens_fields_of (SensServiceUnavailableError f ra) = Some f"
| "sens_fields_of e = None"

section \<open>Sequencing and the Python primitives\<close>

lemma bind_exn_Inl [simp]: "bind_exn (Inl e) f = Inl e"
  by (simp add: bind_exn_def)

lemma bind_exn_Inr [simp]: "bind_exn (Inr v) f = f v"
  by (simp add: bind_exn_def)

lemma bind_exn_eq_Inl:
  "bind_exn m f = Inl e \<Longrightarrow> m = Inl e \<or> (\<exists>v. m = Inr v \<and> f v = Inl e)"
  by (cases m) simp_all


text \<open>The primitives raise built-in exceptions only.\<close>

lemma py_getitem_not_sens: "py_getitem v k = Inl e \<Longrightarrow> sens_fields_of e = None"
  by (cases v) (auto split: option.splits)

lemma py_get_not_sens: "py_get v k d = Inl e \<Longrightarrow> sens_fields_of e = None"
  by (cases v) auto




section \<open>The decoders raise built-in exceptions only\<close>

lemma source_of_query_not_sens: "source_of_query s = Inl e \<Longrightarrow> sens_fields_of e = None"
  unfolding source_of_query_def
  by (auto dest!: bind_exn_eq_Inl dest: py_getitem_not_sens py_get_not_sens)




section \<open>The response handler: what it returns and what it raises\<close>






text \<open>
  With a body that is an object (or not JSON at all) and a \<open>Retry-After\<close> header that
  parses, the handler raises the class the status selects, built from the three fields.
\<close>

lemma handle_response_status_table:
  assumes "(case json_body r of None \<Rightarrow> JDict [] | Some v \<Rightarrow> v) = JDict kvs"
    and "status_code r \<notin> set [200, 201, 202, 204]"
    and "parse_retry_after (headers r ''Retry-After'') = Inr ra"
  shows "handle_response r =
     (let f = SensError_init
                (case map_of kvs ''message'' of
                   None \<Rightarrow> JStr (''HTTP '' @ str_int (status_code r)) | Some v \<Rightarrow> v)
                (case map_of kvs ''code'' of None \<Rightarrow> JNull | Some v \<Rightarrow> v)
                (case map_of kvs ''details'' of None \<Rightarrow> JDict [] | Some v \<Rightarrow> v)
      in if status_code r = 400 then Inl (SensValidationError f)
         else if status_code r = 401 \<or> status_code r = 403 then Inl (SensAuthError f)
         else if status_code r = 404 then Inl (SensNotFoundError f)
         else if status_code r = 409 then Inl (SensConflictError f)
         else if status_code r = 413 then Inl (SensPayloadTooLargeError f)
         else if status_code r = 429 then Inl (SensRateLimitError f ra)
         else if status_code r = 503 then Inl (SensServiceUnavailableError f ra)
         else Inl (SensError f))"
  using assms
  by (auto simp: handle_response_def Let_def cong: option.case_cong)

text \<open>The three outcomes of reading \<open>Retry-After\<close>.\<close>

lemma parse_retry_after_absent:
  "parse_retry_after None = Inr None \<and> parse_retry_after (Some []) = Inr None"
  by (simp add: parse_retry_after_def)

lemma parse_retry_after_numeric:
  "py_int s = Some n \<Longrightarrow> parse_retry_after (Some s) = Inr (Some n)"
  by (cases s) (simp_all add: parse_retry_after_def py_int_def py_strip_def)

lemma parse_retry_after_non_numeric:
  "s \<noteq> [] \<Longrightarrow> py_int s = None \<Longrightarrow> parse_retry_after (Some s) = Inl ValueError"
  by (simp add: parse_retry_after_def)

section \<open>The operations, unfolded\<close>

text \<open>
  Each operation makes its one call and then maps the outcome: the value or exception
  and the new log in closed form.
\<close>

lemma call_result_simps [simp]:
  "call_result (Refused m) = Inl (LibraryError m)"
  "call_result (Failed m) = Inl (LibraryError m)"
  "call_result (Answered r) = Inr r"
  by (simp_all add: call_result_def)

lemma reached_transport_simps [simp]:
  "reached_transport (Refused m) = False"
  "reached_transport (Failed m) = True"
  "reached_transport (Answered r) = True"
  by (simp_all add: reached_transport_def)



lemma get_document_outcome:
  "get_document c send i log =
     (bind_exn (call_result (send (document_request c GET i)))
        (\<lambda>r. bind_exn (handle_response r) document_of_get),
      if reached_transport (send (document_request c GET i))
      then log @ [document_request c GET i] else log)"
  by (simp add: get_document_def client_send_def)

lemma delete_document_outcome:
  "delete_document c send i log =
     (bind_exn (call_result (send (document_request c DELETE i)))
        (\<lambda>r. bind_exn (handle_response r) (\<lambda>result. Inr ())),
      if reached_transport (send (document_request c DELETE i))
      then log @ [document_request c DELETE i] else log)"
  by (simp add: delete_document_def client_send_def)

lemma get_context_rail_outcome:
  "get_context_rail c send i log =
     (bind_exn (call_result (send (context_rail_request c i)))
        (\<lambda>r. bind_exn (handle_response r) context_rail_of),
      if reached_transport (send (context_rail_request c i))
      then log @ [context_rail_request c i] else log)"
  by (simp add: get_context_rail_def client_send_def)

lemma query_outcome:
  "query c send q ds tg l th log =
     (bind_exn
        (call_result
           (send (query_request c q ds tg (case l of None \<Rightarrow> 3 | Some x \<Rightarrow> x)
                    (case th of None \<Rightarrow> 0x3FE0000000000000 | Some x \<Rightarrow> x))))
        (\<lambda>r. bind_exn (handle_response r) query_result_of),
      if reached_transport
           (send (query_request c q ds tg (case l of None \<Rightarrow> 3 | Some x \<Rightarrow> x)
                    (case th of None \<Rightarrow> 0x3FE0000000000000 | Some x \<Rightarrow> x)))
      then log @ [query_request c q ds tg (case l of None \<Rightarrow> 3 | Some x \<Rightarrow> x)
                    (case th of None \<Rightarrow> 0x3FE0000000000000 | Some x \<Rightarrow> x)]
      else log)"
  by (simp add: query_def client_send_def Let_def)

lemma upload_document_outcome:
  "path_exists ev p \<Longrightarrow> open_rb ev p = Some f \<Longrightarrow>
   upload_document c ev send p t g log =
     (bind_exn (call_result (send (upload_request c f t g)))
        (\<lambda>r. bind_exn (handle_response r) document_of_upload),
      if reached_transport (send (upload_request c f t g))
      then log @ [upload_request c f t g] else log)"
  by (simp add: upload_document_def client_send_def)

lemma upload_document_unopened:
  "path_exists ev p \<Longrightarrow> open_rb ev p = None \<Longrightarrow>
   upload_document c ev send p t g log = (Inl (OSError p), log)"
  by (simp add: upload_document_def)

text \<open>The headers of \<open>_get_headers\<close> encode as ASCII exactly when the key does.\<close>

lemma get_headers_ascii:
  "list_all (\<lambda>kv. is_ascii (fst kv) \<and> is_ascii (snd kv)) (get_headers k) = is_ascii k"
  by (simp add: get_headers_def is_ascii_def)


lemma handle_response_unparseable:
  "status_code r \<in> set [200, 201, 202, 204] \<Longrightarrow> json_body r = None \<Longrightarrow>
   handle_response r = Inr (JDict [])"
  by (simp add: handle_response_def)




section \<open>The claims\<close>

text \<open>
  C1. The claim: every response with a non-2xx status makes the handler raise the member
  of the error taxonomy that its status selects, for every such response. The handler
  does so when the body is a JSON object or is not JSON (\<open>handle_response_status_table\<close>).
  A body that is valid JSON but not an object, here the empty array with status 500,
  reaches \<open>data.get\<close> on a list: the handler raises \<open>AttributeError\<close>, which is no
  member of the taxonomy.
\<close>

theorem C1_non_object_body_raises_AttributeError:
  "handle_response \<lparr>status_code = 500, json_body = Some (JList []), headers = (\<lambda>k. None)\<rparr>
     = Inl AttributeError"
  by (simp add: handle_response_def)

text \<open>
  C2. The claim: on 429 and 503 a \<open>Retry-After\<close> header that is absent or not numeric
  gives \<open>retry_after = None\<close>, and parsing never raises. The absent and the numeric
  header behave as claimed (\<open>parse_retry_after_absent\<close>, \<open>parse_retry_after_numeric\<close>).
  A header that is present and not numeric, such as the HTTP date form of
  \<open>Retry-After\<close>, reaches \<open>int(retry_after)\<close>: the handler raises \<open>ValueError\<close> in
  place of the rate-limit or service-unavailable error.
\<close>

theorem C2_http_date_retry_after_raises_ValueError:
  "handle_response
     \<lparr>status_code = 429, json_body = Some (JDict []),
      headers = (\<lambda>k. if k = ''Retry-After'' then Some ''Wed, 21 Oct 2015 07:28:00 GMT''
                      else None)\<rparr>
     = Inl ValueError
   \<and> handle_response
     \<lparr>status_code = 503, json_body = Some (JDict []),
      headers = (\<lambda>k. if k = ''Retry-After'' then Some ''soon'' else None)\<rparr>
     = Inl ValueError"
  by (simp add: handle_response_def parse_retry_after_def py_int_def py_strip_def
        py_isspace_def digit_val_def unicode_space_to_blank_def)

text \<open>
  C3. The claim: a response with status 200, 201, 202 or 204 whose body is not valid JSON
  decodes as the empty mapping, optional fields take their defaults, and the operation
  never crashes. It fails where a typed result has required fields: \<open>upload_document\<close>
  answered with 202 and an unparseable body raises \<open>KeyError\<close> for \<open>id\<close>.
\<close>

theorem C3_unparseable_body_upload_raises_KeyError:
  "fst (upload_document
          \<lparr>api_key = ''sens_sk_1'', base_url = ''https://api.sens.ai/v1'', timeout = 30,
           client_headers = []\<rparr>
          \<lparr>getenv = (\<lambda>k. None), path_exists = (\<lambda>p. True), open_rb = (\<lambda>p. Some ''%PDF''),
      client_setup = None\<rparr>
          (\<lambda>req. Answered \<lparr>status_code = 202, json_body = None, headers = (\<lambda>k. None)\<rparr>)
          ''report.pdf'' None None [])
     = Inl (KeyError ''id'')"
  by (simp add: upload_document_def client_send_def handle_response_def
        document_of_upload_def)

text \<open>
  C3, as the code has it. For such a response the handler raises nothing and returns the
  empty mapping, so every \<open>result.get(key)\<close> on it yields its default;
  \<open>delete_document\<close>, which reads no field, returns normally. The dataclasses declare
  \<open>id\<close>, \<open>status\<close> and \<open>query_id\<close> without a default and the operations read them
  with \<open>result[key]\<close>: \<open>get_document\<close> and \<open>upload_document\<close> (once the file is
  opened) raise \<open>KeyError\<close> for \<open>id\<close>, \<open>query\<close> and \<open>get_context_rail\<close> for
  \<open>query_id\<close>.
\<close>

theorem C3_unparseable_success_body:
  assumes "status_code r \<in> set [200, 201, 202, 204]" and "json_body r = None"
  shows "handle_response r = Inr (JDict [])
       \<and> bind_exn (handle_response r) (\<lambda>result. py_get result k dflt) = Inr dflt
       \<and> fst (delete_document c (\<lambda>req. Answered r) document_id log) = Inr ()
       \<and> fst (get_document c (\<lambda>req. Answered r) document_id log) = Inl (KeyError ''id'')
       \<and> fst (query c (\<lambda>req. Answered r) q ds tg l th log) = Inl (KeyError ''query_id'')
       \<and> fst (get_context_rail c (\<lambda>req. Answered r) query_id log) = Inl (KeyError ''query_id'')
       \<and> (path_exists ev p \<and> open_rb ev p \<noteq> None \<longrightarrow>
            fst (upload_document c ev (\<lambda>req. Answered r) p t g log) = Inl (KeyError ''id''))"
proof -
  note h = handle_response_unparseable [OF assms]
  have 1: "bind_exn (handle_response r) (\<lambda>result. py_get result k dflt) = Inr dflt"
    by (simp add: h)
  have 2: "fst (delete_document c (\<lambda>req. Answered r) document_id log) = Inr ()"
    by (simp add: delete_document_outcome h)
  have 3: "fst (get_document c (\<lambda>req. Answered r) document_id log) = Inl (KeyError ''id'')"
    by (simp add: get_document_outcome h document_of_get_def)
  have 4: "fst (query c (\<lambda>req. Answered r) q ds tg l th log) = Inl (KeyError ''query_id'')"
    by (simp add: query_outcome h query_result_of_def)
  have 5: "fst (get_context_rail c (\<lambda>req. Answered r) query_id log) = Inl (KeyError ''query_id'')"
    by (simp add: get_context_rail_outcome h context_rail_of_def)
  have 6: "path_exists ev p \<and> open_rb ev p \<noteq> None \<longrightarrow>
            fst (upload_document c ev (\<lambda>req. Answered r) p t g log) = Inl (KeyError ''id'')"
    by (auto simp: upload_document_outcome h document_of_upload_def)
  from h 1 2 3 4 5 6 show ?thesis by blast
qed

theorem C3_unparseable_success_body_witness:
  "handle_response \<lparr>status_code = 204, json_body = None, headers = (\<lambda>k. None)\<rparr> = Inr (JDict [])
   \<and> bind_exn (handle_response \<lparr>status_code = 204, json_body = None, headers = (\<lambda>k. None)\<rparr>)
        (\<lambda>result. py_get result ''title'' JNull) = Inr JNull
   \<and> fst (delete_document
        \<lparr>api_key = ''sens_sk_1'', base_url = ''https://api.sens.ai/v1'', timeout = 30,
         client_headers = []\<rparr>
        (\<lambda>req. Answered \<lparr>status_code = 204, json_body = None, headers = (\<lambda>k. None)\<rparr>)
        ''doc_1'' []) = Inr ()
   \<and> fst (get_document
        \<lparr>api_key = ''sens_sk_1'', base_url = ''https://api.sens.ai/v1'', timeout = 30,
         client_headers = []\<rparr>
        (\<lambda>req. Answered \<lparr>status_code = 204, json_body = None, headers = (\<lambda>k. None)\<rparr>)
        ''doc_1'' []) = Inl (KeyError ''id'')
   \<and> fst (upload_document
        \<lparr>api_key = ''sens_sk_1'', base_url = ''https://api.sens.ai/v1'', timeout = 30,
         client_headers = []\<rparr>
        \<lparr>getenv = (\<lambda>k. None), path_exists = (\<lambda>p. True), open_rb = (\<lambda>p. Some ''%PDF''),
      client_setup = None\<rparr>
        (\<lambda>req. Answered \<lparr>status_code = 204, json_body = None, headers = (\<lambda>k. None)\<rparr>)
        ''report.pdf'' None None []) = Inl (KeyError ''id'')"
proof -
  let ?r = "\<lparr>status_code = 204, json_body = None, headers = (\<lambda>k. None)\<rparr>"
  have st: "status_code ?r \<in> set [200, 201, 202, 204]" by simp
  have body: "json_body ?r = None" by simp
  show ?thesis
    using C3_unparseable_success_body [OF st body,
      where k = "''title''" and dflt = JNull
        and c = "\<lparr>api_key = ''sens_sk_1'', base_url = ''https://api.sens.ai/v1'', timeout = 30,
                  client_headers = []\<rparr>"
        and document_id = "''doc_1''" and log = "[]"
        and q = "''what''" and ds = None and tg = None and l = None and th = None
        and query_id = "''q_1''"
        and ev = "\<lparr>getenv = (\<lambda>k. None), path_exists = (\<lambda>p. True),
                   open_rb = (\<lambda>p. Some ''%PDF''),
      client_setup = None\<rparr>"
        and p = "''report.pdf''" and t = None and g = None]
    by simp
qed

text \<open>
  C4. When \<open>os.path.exists\<close> is false for the path, \<open>upload_document\<close> raises
  \<open>SensValidationError\<close> with the message \<open>File not found: <path>\<close> and code
  \<open>SENS_003\<close>, whatever the transport would answer, and the log of requests is
  unchanged: no request is built or sent.
\<close>

theorem C4_upload_missing_file_no_request:
  "\<not> path_exists ev file_path \<Longrightarrow>
   upload_document c ev send file_path title tags log =
     (Inl (SensValidationError
             \<lparr>message = JStr (''File not found: '' @ file_path), code = JStr ''SENS_003'',
              details = JDict []\<rparr>), log)"
  by (simp add: upload_document_def SensError_init_def)

theorem C4_upload_missing_file_no_request_witness:
  "upload_document
     \<lparr>api_key = ''sens_sk_1'', base_url = ''https://api.sens.ai/v1'', timeout = 30,
      client_headers = []\<rparr>
     \<lparr>getenv = (\<lambda>k. None), path_exists = (\<lambda>p. False), open_rb = (\<lambda>p. None),
      client_setup = None\<rparr>
     (\<lambda>req. Failed ''unreachable'') ''missing.pdf'' (Some ''Report'') None [] =
     (Inl (SensValidationError
             \<lparr>message = JStr ''File not found: missing.pdf'', code = JStr ''SENS_003'',
              details = JDict []\<rparr>), [])"
  using C4_upload_missing_file_no_request
    [of "\<lparr>getenv = (\<lambda>k. None), path_exists = (\<lambda>p. False), open_rb = (\<lambda>p. None),
      client_setup = None\<rparr>"
        "''missing.pdf''"
        "\<lparr>api_key = ''sens_sk_1'', base_url = ''https://api.sens.ai/v1'', timeout = 30,
          client_headers = []\<rparr>"
        "\<lambda>req. Failed ''unreachable''" "Some ''Report''" None "[]"]
  by simp

text \<open>
  C5. The claim: constructing a client with no \<open>api_key\<close> argument and no value in
  \<open>SENS_API_KEY\<close> fails before any network I/O, and construction succeeds when either
  source supplies a key. The second part fails for a key that is not ASCII: with the key
  \<open>cl\<close> followed by the character U+00E9, building the default headers of the HTTP
  client raises \<open>UnicodeEncodeError\<close> and no client results.
\<close>

theorem C5_non_ascii_key_raises_UnicodeEncodeError:
  "SensClient_init
     \<lparr>getenv = (\<lambda>k. None), path_exists = (\<lambda>p. False), open_rb = (\<lambda>p. None),
      client_setup = None\<rparr>
     (Some [CHR 0x63, CHR 0x6C, CHR 0xE9]) None None = Inl UnicodeEncodeError"
  by (simp add: SensClient_init_def opt_truthy_def httpx_Client_init_def get_headers_def
        is_ascii_def)

text \<open>
  C5, as the code has it. With no \<open>api_key\<close> argument (or an empty one) and no value (or
  an empty one) in \<open>SENS_API_KEY\<close>, the constructor raises \<open>SensValidationError\<close> with
  code \<open>SENS_003\<close> before the HTTP client is built; it has no access to the transport.
  With a non-empty key from the argument or, failing that, from the environment variable,
  it returns a client holding that key when the key is ASCII and the HTTP library sets
  itself up from its environment without raising; a key with a character outside ASCII
  raises \<open>UnicodeEncodeError\<close>, and an exception of the library's setup is passed on.
\<close>

theorem C5_client_construction:
  "(api_key_arg \<in> {None, Some []} \<and> getenv ev ''SENS_API_KEY'' \<in> {None, Some []} \<longrightarrow>
      SensClient_init ev api_key_arg base_url_arg timeout_arg =
        Inl (SensValidationError
               \<lparr>message = JStr ''API key required. Provide 'api_key' parameter or set SENS_API_KEY environment variable.'',
                code = JStr ''SENS_003'', details = JDict []\<rparr>))
   \<and> (\<forall>k. k \<noteq> [] \<and>
            (api_key_arg = Some k \<or>
             (api_key_arg \<in> {None, Some []} \<and> getenv ev ''SENS_API_KEY'' = Some k)) \<longrightarrow>
          SensClient_init ev api_key_arg base_url_arg timeout_arg =
            (if is_ascii k
             then (case client_setup ev of
                     None \<Rightarrow>
                       Inr \<lparr>api_key = k,
                            base_url = rstrip_slash
                              (case base_url_arg of
                                 None \<Rightarrow> ''https://api.sens.ai/v1'' | Some u \<Rightarrow> u),
                            timeout = (case timeout_arg of None \<Rightarrow> 30 | Some t \<Rightarrow> t),
                            client_headers = get_headers k\<rparr>
                   | Some m \<Rightarrow> Inl (LibraryError m))
             else Inl UnicodeEncodeError))"
proof (intro conjI allI impI)
  assume "api_key_arg \<in> {None, Some []} \<and> getenv ev ''SENS_API_KEY'' \<in> {None, Some []}"
  then show "SensClient_init ev api_key_arg base_url_arg timeout_arg =
        Inl (SensValidationError
               \<lparr>message = JStr ''API key required. Provide 'api_key' parameter or set SENS_API_KEY environment variable.'',
                code = JStr ''SENS_003'', details = JDict []\<rparr>)"
    by (auto simp: SensClient_init_def opt_truthy_def SensError_init_def Let_def)
next
  fix k
  assume k: "k \<noteq> [] \<and>
            (api_key_arg = Some k \<or>
             (api_key_arg \<in> {None, Some []} \<and> getenv ev ''SENS_API_KEY'' = Some k))"
  then have key: "(if opt_truthy api_key_arg then api_key_arg
                   else getenv ev ''SENS_API_KEY'') = Some k"
    by (auto simp: opt_truthy_def)
  show "SensClient_init ev api_key_arg base_url_arg timeout_arg =
            (if is_ascii k
             then (case client_setup ev of
                     None \<Rightarrow>
                       Inr \<lparr>api_key = k,
                            base_url = rstrip_slash
                              (case base_url_arg of
                                 None \<Rightarrow> ''https://api.sens.ai/v1'' | Some u \<Rightarrow> u),
                            timeout = (case timeout_arg of None \<Rightarrow> 30 | Some t \<Rightarrow> t),
                            client_headers = get_headers k\<rparr>
                   | Some m \<Rightarrow> Inl (LibraryError m))
             else Inl UnicodeEncodeError)"
    using k
    by (simp add: SensClient_init_def Let_def key httpx_Client_init_def get_headers_ascii
          split: option.splits)
qed

theorem C5_client_construction_witness:
  "SensClient_init
     \<lparr>getenv = (\<lambda>k. None), path_exists = (\<lambda>p. False), open_rb = (\<lambda>p. None),
      client_setup = None\<rparr>
     None None None =
     Inl (SensValidationError
            \<lparr>message = JStr ''API key required. Provide 'api_key' parameter or set SENS_API_KEY environment variable.'',
             code = JStr ''SENS_003'', details = JDict []\<rparr>)
   \<and> SensClient_init
       \<lparr>getenv = (\<lambda>k. None), path_exists = (\<lambda>p. False), open_rb = (\<lambda>p. None),
        client_setup = None\<rparr>
       (Some ''sens_sk_live'') None None =
     Inr \<lparr>api_key = ''sens_sk_live'', base_url = ''https://api.sens.ai/v1'', timeout = 30,
          client_headers = get_headers ''sens_sk_live''\<rparr>
   \<and> SensClient_init
       \<lparr>getenv = (\<lambda>k. if k = ''SENS_API_KEY'' then Some ''sens_sk_env'' else None),
        path_exists = (\<lambda>p. False), open_rb = (\<lambda>p. None), client_setup = None\<rparr>
       None (Some ''https://eu.sens.ai/v1/'') (Some 5) =
     Inr \<lparr>api_key = ''sens_sk_env'', base_url = ''https://eu.sens.ai/v1'', timeout = 5,
          client_headers = get_headers ''sens_sk_env''\<rparr>"
  using
    C5_client_construction
      [where api_key_arg = None
         and ev = "\<lparr>getenv = (\<lambda>k. None), path_exists = (\<lambda>p. False),
                    open_rb = (\<lambda>p. None), client_setup = None\<rparr>"
         and base_url_arg = None and timeout_arg = None]
    C5_client_construction
      [where api_key_arg = "Some ''sens_sk_live''"
         and ev = "\<lparr>getenv = (\<lambda>k. None), path_exists = (\<lambda>p. False),
                    open_rb = (\<lambda>p. None), client_setup = None\<rparr>"
         and base_url_arg = None and timeout_arg = None]
    C5_client_construction
      [where api_key_arg = None
         and ev = "\<lparr>getenv = (\<lambda>k. if k = ''SENS_API_KEY'' then Some ''sens_sk_env'' else None),
                    path_exists = (\<lambda>p. False), open_rb = (\<lambda>p. None),
                    client_setup = None\<rparr>"
         and base_url_arg = "Some ''https://eu.sens.ai/v1/''" and timeout_arg = "Some 5"]
  by (simp add: is_ascii_def rstrip_slash_def)



text \<open>
  C7. The claim: every operation performs exactly one HTTP round trip per call. It fails
  for \<open>upload_document\<close> on a path that does not exist: the call issues no request.
\<close>

theorem C7_upload_missing_file_zero_requests:
  "length (snd (upload_document
          \<lparr>api_key = ''sens_sk_1'', base_url = ''https://api.sens.ai/v1'', timeout = 30,
           client_headers = []\<rparr>
          \<lparr>getenv = (\<lambda>k. None), path_exists = (\<lambda>p. False), open_rb = (\<lambda>p. None),
           client_setup = None\<rparr>
          (\<lambda>req. Answered \<lparr>status_code = 202, json_body = None, headers = (\<lambda>k. None)\<rparr>)
          ''missing.pdf'' None None [])) = 0"
  by (simp add: upload_document_def)

text \<open>
  C7, as the code has it. Every operation makes at most one call of the HTTP client and
  never repeats it, so it issues at most one HTTP request, whatever the response status,
  the exception raised or the failure of the transport. \<open>get_document\<close>,
  \<open>delete_document\<close>, \<open>query\<close> and \<open>get_context_rail\<close> issue exactly one when their call
  reaches the transport and none when the HTTP library refuses the call before sending (a
  URL it rejects, a payload it cannot encode). \<open>upload_document\<close> issues none when the
  path does not exist or the file does not open, and otherwise as the others.
\<close>

theorem C7_at_most_one_request:
  "length (snd (get_document c send document_id log)) =
     length log + (if reached_transport (send (document_request c GET document_id))
                   then 1 else 0)
   \<and> length (snd (delete_document c send document_id log)) =
     length log + (if reached_transport (send (document_request c DELETE document_id))
                   then 1 else 0)
   \<and> length (snd (query c send q ds tg l th log)) =
     length log +
       (if reached_transport
             (send (query_request c q ds tg (case l of None \<Rightarrow> 3 | Some x \<Rightarrow> x)
                      (case th of None \<Rightarrow> 0x3FE0000000000000 | Some x \<Rightarrow> x)))
        then 1 else 0)
   \<and> length (snd (get_context_rail c send query_id log)) =
     length log + (if reached_transport (send (context_rail_request c query_id))
                   then 1 else 0)
   \<and> length (snd (upload_document c ev send p t g log)) =
     length log +
       (if path_exists ev p
        then (case open_rb ev p of
                None \<Rightarrow> 0
              | Some f \<Rightarrow> (if reached_transport (send (upload_request c f t g))
                          then 1 else 0))
        else 0)
   \<and> length (snd (get_document c send document_id log)) \<le> length log + 1
   \<and> length (snd (delete_document c send document_id log)) \<le> length log + 1
   \<and> length (snd (query c send q ds tg l th log)) \<le> length log + 1
   \<and> length (snd (get_context_rail c send query_id log)) \<le> length log + 1
   \<and> length (snd (upload_document c ev send p t g log)) \<le> length log + 1"
proof -
  have up: "length (snd (upload_document c ev send p t g log)) =
     length log +
       (if path_exists ev p
        then (case open_rb ev p of
                None \<Rightarrow> 0
              | Some f \<Rightarrow> (if reached_transport (send (upload_request c f t g))
                          then 1 else 0))
        else 0)"
  proof (cases "path_exists ev p")
    case False
    then show ?thesis by (simp add: upload_document_def)
  next
    case True
    then show ?thesis
      by (cases "open_rb ev p")
         (simp_all add: upload_document_outcome upload_document_unopened)
  qed
  have up_le: "length (snd (upload_document c ev send p t g log)) \<le> length log + 1"
    unfolding up by (simp split: option.splits)
  show ?thesis
    using up up_le
    by (simp add: get_document_outcome delete_document_outcome query_outcome
          get_context_rail_outcome)
qed

theorem C7_at_most_one_request_witness:
  "length (snd (delete_document
        \<lparr>api_key = ''sens_sk_1'', base_url = ''https://api.sens.ai/v1'', timeout = 30,
         client_headers = []\<rparr>
        (\<lambda>req. Answered \<lparr>status_code = 503, json_body = None, headers = (\<lambda>k. None)\<rparr>)
        ''doc_1'' [])) = 1
   \<and> length (snd (get_document
        \<lparr>api_key = ''sens_sk_1'', base_url = ''https://api.sens.ai/v1'', timeout = 30,
         client_headers = []\<rparr>
        (\<lambda>req. Refused ''Invalid non-printable ASCII character in URL'')
        [CHR 0x0A] [])) = 0
   \<and> length (snd (upload_document
        \<lparr>api_key = ''sens_sk_1'', base_url = ''https://api.sens.ai/v1'', timeout = 30,
         client_headers = []\<rparr>
        \<lparr>getenv = (\<lambda>k. None), path_exists = (\<lambda>p. True), open_rb = (\<lambda>p. Some ''%PDF''),
         client_setup = None\<rparr>
        (\<lambda>req. Failed ''connection refused'')
        ''report.pdf'' None None [])) = 1"
  using
    C7_at_most_one_request
      [where c = "\<lparr>api_key = ''sens_sk_1'', base_url = ''https://api.sens.ai/v1'',
                    timeout = 30, client_headers = []\<rparr>"
         and send = "\<lambda>req. Answered \<lparr>status_code = 503, json_body = None,
                                      headers = (\<lambda>k. None)\<rparr>"
         and document_id = "''doc_1''" and log = "[]"]
    C7_at_most_one_request
      [where c = "\<lparr>api_key = ''sens_sk_1'', base_url = ''https://api.sens.ai/v1'',
                    timeout = 30, client_headers = []\<rparr>"
         and send = "\<lambda>req. Refused ''Invalid non-printable ASCII character in URL''"
         and document_id = "[CHR 0x0A]" and log = "[]"]
    C7_at_most_one_request
      [where c = "\<lparr>api_key = ''sens_sk_1'', base_url = ''https://api.sens.ai/v1'',
                    timeout = 30, client_headers = []\<rparr>"
         and send = "\<lambda>req. Failed ''connection refused''"
         and log = "[]"
         and ev = "\<lparr>getenv = (\<lambda>k. None), path_exists = (\<lambda>p. True),
                    open_rb = (\<lambda>p. Some ''%PDF''), client_setup = None\<rparr>"
         and p = "''report.pdf''" and t = None and g = None]
  by simp

text \<open>
  C8. \<open>upload_document_async\<close> and \<open>query_async\<close> hand the synchronous call, with
  the arguments in the order of its signature and the same defaults, to the executor and
  await its future: the value returned, the exception raised and the requests issued are
  those of the synchronous operation on the same arguments, environment and transport.
\<close>

theorem C8_async_same_outcome:
  "upload_document_async c ev send file_path title tags log =
     upload_document c ev send file_path title tags log
   \<and> query_async c send q document_ids tags' limit_arg threshold_arg log =
     query c send q document_ids tags' limit_arg threshold_arg log"
proof
  obtain res log' where u: "upload_document c ev send file_path title tags log = (res, log')"
    by (cases "upload_document c ev send file_path title tags log")
  show "upload_document_async c ev send file_path title tags log =
     upload_document c ev send file_path title tags log"
    by (cases res) (simp_all add: upload_document_async_def run_in_executor_def await_def u)
next
  let ?limit = "case limit_arg of None \<Rightarrow> 3 | Some l \<Rightarrow> l"
  let ?thr = "case threshold_arg of None \<Rightarrow> 0x3FE0000000000000 | Some t \<Rightarrow> t"
  have same: "query c send q document_ids tags' (Some ?limit) (Some ?thr) log =
              query c send q document_ids tags' limit_arg threshold_arg log"
    by (simp add: query_outcome)
  obtain res log' where u:
    "query c send q document_ids tags' limit_arg threshold_arg log = (res, log')"
    by (cases "query c send q document_ids tags' limit_arg threshold_arg log")
  show "query_async c send q document_ids tags' limit_arg threshold_arg log =
     query c send q document_ids tags' limit_arg threshold_arg log"
    using same
    by (cases res) (simp_all add: query_async_def Let_def run_in_executor_def await_def u)
qed






end
